theory Spec2Isabelle
  imports Main "HOL-Library.AList"
begin

section \<open>Values and errors\<close>

text \<open>
  Python values as they reach the provider adapters: JSON-like payloads plus the
  date and datetime objects the validators build.  A date is its day number counted
  from 1970-01-01; a datetime is the day number, the second of the day and the
  microsecond of its wall-clock fields.  Dictionaries are association lists in
  insertion order.  Floating-point numbers are left out.
\<close>

datatype pyval =
    PNone
  | PBool bool
  | PInt int
  | PStr string
  | PDate int
  | PDatetime int nat nat
  | PList "pyval list"
  | PDict "(string \<times> pyval) list"

datatype error =
    EmptyDataError
  | ValidationError
  | KeyError
  | TypeError
  | AttributeError
  | ValueError
  | TransportError

text \<open>Python truth value of an object, as tested by \<^verbatim>\<open>if v\<close> and \<^verbatim>\<open>not v\<close>.\<close>

fun truthy :: "pyval \<Rightarrow> bool" where
  "truthy PNone = False"
| "truthy (PBool b) = b"
| "truthy (PInt n) = (n \<noteq> 0)"
| "truthy (PStr s) = (s \<noteq> [])"
| "truthy (PDate d) = True"
| "truthy (PDatetime d s u) = True"
| "truthy (PList xs) = (xs \<noteq> [])"
| "truthy (PDict kvs) = (kvs \<noteq> [])"

section \<open>Benzinga: action codes\<close>

definition COVERAGE_DICT :: "(string \<times> string) list" where
  "COVERAGE_DICT =
    [(''downgrades'', ''Downgrades''),
     (''maintains'', ''Maintains''),
     (''reinstates'', ''Reinstates''),
     (''reiterates'', ''Reiterates''),
     (''upgrades'', ''Upgrades''),
     (''assumes'', ''Assumes''),
     (''initiates'', ''Initiates Coverage On''),
     (''terminates'', ''Terminates Coverage On''),
     (''removes'', ''Removes''),
     (''suspends'', ''Suspends''),
     (''firm_dissolved'', ''Firm Dissolved'')]"

text \<open>The literals of the \<^verbatim>\<open>action\<close> field of the query parameters.\<close>

definition action_literals :: "string list" where
  "action_literals =
    [''downgrades'', ''maintains'', ''reinstates'', ''reiterates'', ''upgrades'',
     ''assumes'', ''initiates'', ''terminates'', ''removes'', ''suspends'',
     ''firm_dissolved'']"

text \<open>
  \<^verbatim>\<open>return COVERAGE_DICT[v] if v else None\<close>: a falsy value gives None, a
  string that is a key gives its entry, a string that is no key raises KeyError and
  an unhashable value raises TypeError.
\<close>

fun convert_action :: "pyval \<Rightarrow> error + pyval" where
  "convert_action v =
     (if truthy v then
        (case v of
           PStr s \<Rightarrow> (case map_of COVERAGE_DICT s of
                        Some w \<Rightarrow> Inr (PStr w)
                      | None \<Rightarrow> Inl KeyError)
         | PList xs \<Rightarrow> Inl TypeError
         | PDict kvs \<Rightarrow> Inl TypeError
         | _ \<Rightarrow> Inl KeyError)
      else Inr PNone)"

section \<open>Benzinga: query parameters\<close>

text \<open>
  \<^verbatim>\<open>int(x)\<close> of the quotient of two integers, the divisor positive: rounding is
  towards zero.  The quotient is taken exactly; the rounding of the intermediate
  float is left out.
\<close>

definition int_trunc :: "int \<Rightarrow> int \<Rightarrow> int" where
  "int_trunc a b = (if 0 \<le> a then a div b else - ((- a) div b))"

text \<open>
  The \<^verbatim>\<open>updated\<close> validator (mode after).  A datetime keeps its wall-clock
  fields and is read as UTC; a date is combined with midnight UTC; anything else,
  an integer included, falls through to \<^verbatim>\<open>return None\<close>.
\<close>

fun date_validate :: "pyval \<Rightarrow> pyval" where
  "date_validate (PDatetime d s u) =
     PInt (int_trunc ((d * 86400 + int s) * 1000000 + int u) 1000000)"
| "date_validate (PDate d) = PInt (d * 86400)"
| "date_validate v = PNone"

text \<open>\<^verbatim>\<open>sep.join(xs)\<close> on a list of strings.\<close>

fun join :: "string \<Rightarrow> string list \<Rightarrow> string" where
  "join sep [] = []"
| "join sep [x] = x"
| "join sep (x # y # ys) = x @ sep @ join sep (y # ys)"

text \<open>The strings of a list of values, or nothing when one element is no string.\<close>

fun strs_of :: "pyval list \<Rightarrow> string list option" where
  "strs_of [] = Some []"
| "strs_of (PStr s # vs) = (case strs_of vs of Some ss \<Rightarrow> Some (s # ss) | None \<Rightarrow> None)"
| "strs_of (v # vs) = None"

text \<open>
  The validator of \<^verbatim>\<open>fields\<close>, \<^verbatim>\<open>firm_ids\<close> and \<^verbatim>\<open>analyst_ids\<close> (mode
  before).  A string is returned as it is; a falsy value gives None; a truthy list
  is joined with commas (TypeError when an element is no string); a truthy
  dictionary is joined over its keys; any other truthy value cannot be iterated.
\<close>

fun convert_list :: "pyval \<Rightarrow> error + pyval" where
  "convert_list (PStr s) = Inr (PStr s)"
| "convert_list (PList xs) =
     (if xs = [] then Inr PNone
      else (case strs_of xs of
              Some ss \<Rightarrow> Inr (PStr (join '','' ss))
            | None \<Rightarrow> Inl TypeError))"
| "convert_list (PDict kvs) =
     (if kvs = [] then Inr PNone else Inr (PStr (join '','' (map fst kvs))))"
| "convert_list v = (if truthy v then Inl TypeError else Inr PNone)"

text \<open>
  The declared type of \<^verbatim>\<open>action\<close>: None or one of the eleven literals.  Every
  other value fails validation.
\<close>

fun action_type :: "pyval \<Rightarrow> error + pyval" where
  "action_type PNone = Inr PNone"
| "action_type (PStr s) =
     (if s \<in> set action_literals then Inr (PStr s) else Inl ValidationError)"
| "action_type v = Inl ValidationError"

text \<open>
  The value supplied for a field: the entry under its alias, else the entry under
  its name, else nothing (the default applies and no validator runs).
\<close>

definition field_input :: "(string \<times> pyval) list \<Rightarrow> string \<Rightarrow> string \<Rightarrow> pyval option" where
  "field_input params alias name =
     (case map_of params alias of
        Some v \<Rightarrow> Some v
      | None \<Rightarrow> map_of params name)"

text \<open>
  One field of a model: the validators of mode before, the declared type, the
  validators of mode after, in this order, on a supplied value; the default
  otherwise.  A ValueError raised by a validator is a validation error.
\<close>

definition as_validation :: "error + pyval \<Rightarrow> error + pyval" where
  "as_validation r = (case r of Inl ValueError \<Rightarrow> Inl ValidationError | _ \<Rightarrow> r)"

definition run_field ::
  "(pyval \<Rightarrow> error + pyval) \<Rightarrow> (pyval \<Rightarrow> error + pyval) \<Rightarrow> (pyval \<Rightarrow> error + pyval) \<Rightarrow>
   pyval \<Rightarrow> pyval option \<Rightarrow> error + pyval" where
  "run_field before typ after dflt inp =
     (case inp of
        None \<Rightarrow> Inr dflt
      | Some v \<Rightarrow>
          (case as_validation (before v) of
             Inl e \<Rightarrow> Inl e
           | Inr v1 \<Rightarrow>
               (case typ v1 of
                  Inl e \<Rightarrow> Inl e
                | Inr v2 \<Rightarrow> as_validation (after v2))))"

text \<open>
  The error a construction raises, from the results of its fields in declaration
  order: validation errors are collected and raised at the end, any other
  exception leaves at the field that raised it.
\<close>

fun raised :: "(error + pyval) list \<Rightarrow> bool \<Rightarrow> error option" where
  "raised [] invalid = (if invalid then Some ValidationError else None)"
| "raised (Inr v # rs) invalid = raised rs invalid"
| "raised (Inl e # rs) invalid =
     (if e = ValidationError then raised rs True else Some e)"

record BenzingaPriceTargetQueryParams =
  bz_symbol :: pyval
  bz_limit :: pyval
  bz_page :: pyval
  bz_date :: pyval
  bz_start_date :: pyval
  bz_end_date :: pyval
  bz_updated :: pyval
  bz_importance :: pyval
  bz_action :: pyval
  bz_analyst_ids :: pyval
  bz_firm_ids :: pyval
  bz_fields :: pyval

text \<open>
  \<^verbatim>\<open>BenzingaPriceTargetQueryParams(**params)\<close>: the results of the fields in
  declaration order, then the object or the error.  The declared types other than
  that of \<^verbatim>\<open>action\<close> are validated by the framework: \<open>typed name\<close> is the
  validation of the type of field \<open>name\<close>.  The fields \<^verbatim>\<open>symbol\<close> and
  \<^verbatim>\<open>limit\<close> are inherited, with defaults \<open>dflt name\<close>; the entries of
  \<^verbatim>\<open>__alias_dict__\<close> rename them when the query is dumped, not when it is built.
\<close>

definition field_results ::
  "(string \<Rightarrow> pyval \<Rightarrow> error + pyval) \<Rightarrow> (string \<Rightarrow> pyval) \<Rightarrow>
   (string \<times> pyval) list \<Rightarrow> (error + pyval) list" where
  "field_results typed dflt params =
     [run_field Inr (typed ''symbol'') Inr (dflt ''symbol'')
        (field_input params ''symbol'' ''symbol''),
      run_field Inr (typed ''limit'') Inr (dflt ''limit'')
        (field_input params ''limit'' ''limit''),
      run_field Inr (typed ''page'') Inr (PInt 0)
        (field_input params ''page'' ''page''),
      run_field Inr (typed ''date'') Inr PNone
        (field_input params ''parameters[date]'' ''date''),
      run_field Inr (typed ''start_date'') Inr PNone
        (field_input params ''parameters[date_from]'' ''start_date''),
      run_field Inr (typed ''end_date'') Inr PNone
        (field_input params ''parameters[date_to]'' ''end_date''),
      run_field Inr (typed ''updated'') (\<lambda>v. Inr (date_validate v)) PNone
        (field_input params ''parameters[updated]'' ''updated''),
      run_field Inr (typed ''importance'') Inr PNone
        (field_input params ''parameters[importance]'' ''importance''),
      run_field Inr action_type convert_action PNone
        (field_input params ''parameters[action]'' ''action''),
      run_field convert_list (typed ''analyst_ids'') Inr PNone
        (field_input params ''parameters[analyst_id]'' ''analyst_ids''),
      run_field convert_list (typed ''firm_ids'') Inr PNone
        (field_input params ''parameters[firm_id]'' ''firm_ids''),
      run_field convert_list (typed ''fields'') Inr PNone
        (field_input params ''fields'' ''fields'')]"

definition transform_query ::
  "(string \<Rightarrow> pyval \<Rightarrow> error + pyval) \<Rightarrow> (string \<Rightarrow> pyval) \<Rightarrow>
   (string \<times> pyval) list \<Rightarrow> error + BenzingaPriceTargetQueryParams" where
  "transform_query typed dflt params =
     (let rs = field_results typed dflt params
      in case raised rs False of
           Some e \<Rightarrow> Inl e
         | None \<Rightarrow>
             Inr \<lparr>bz_symbol = projr (rs ! 0), bz_limit = projr (rs ! 1),
                  bz_page = projr (rs ! 2), bz_date = projr (rs ! 3),
                  bz_start_date = projr (rs ! 4), bz_end_date = projr (rs ! 5),
                  bz_updated = projr (rs ! 6), bz_importance = projr (rs ! 7),
                  bz_action = projr (rs ! 8), bz_analyst_ids = projr (rs ! 9),
                  bz_firm_ids = projr (rs ! 10), bz_fields = projr (rs ! 11)\<rparr>)"

section \<open>Benzinga: data model\<close>

text \<open>
  The validator of \<^verbatim>\<open>published_date\<close> (mode before).  \<open>strptime\<close> is
  \<^verbatim>\<open>datetime.strptime(v, "%Y-%m-%d").date()\<close>, the day number of a well-formed
  string and nothing (ValueError) otherwise.
\<close>

fun parse_date :: "(string \<Rightarrow> int option) \<Rightarrow> pyval \<Rightarrow> error + pyval" where
  "parse_date strptime v =
     (if truthy v then
        (case v of
           PStr s \<Rightarrow> (case strptime s of Some d \<Rightarrow> Inr (PDate d) | None \<Rightarrow> Inl ValueError)
         | _ \<Rightarrow> Inl TypeError)
      else Inr PNone)"

text \<open>
  \<^verbatim>\<open>datetime.fromtimestamp(v, UTC)\<close> for an integer: day number and second of
  the day, within the years 1 to 9999.
\<close>

definition fromtimestamp :: "int \<Rightarrow> error + (int \<times> nat \<times> nat)" where
  "fromtimestamp n =
     (if - 719162 * 86400 \<le> n \<and> n < 2932897 * 86400
      then Inr (n div 86400, nat (n mod 86400), 0)
      else Inl ValueError)"

text \<open>
  The validator of \<^verbatim>\<open>last_updated\<close> (mode before): a truthy timestamp becomes
  a date when its time of day is midnight and a datetime otherwise; a falsy value
  is returned as it is.
\<close>

fun validate_date :: "pyval \<Rightarrow> error + pyval" where
  "validate_date v =
     (if truthy v then
        (case v of
           PInt n \<Rightarrow>
             (case fromtimestamp n of
                Inl e \<Rightarrow> Inl e
              | Inr (d, s, u) \<Rightarrow>
                  Inr (if s = 0 \<and> u = 0 then PDate d else PDatetime d s u))
         | PBool b \<Rightarrow>
             (case fromtimestamp 1 of
                Inl e \<Rightarrow> Inl e
              | Inr (d, s, u) \<Rightarrow>
                  Inr (if s = 0 \<and> u = 0 then PDate d else PDatetime d s u))
         | _ \<Rightarrow> Inl TypeError)
      else Inr v)"

text \<open>The model validator (mode before): \<^verbatim>\<open>{k: None if v == "" else v ...}\<close>.\<close>

definition replace_empty_strings :: "(string \<times> pyval) list \<Rightarrow> (string \<times> pyval) list" where
  "replace_empty_strings values =
     map (\<lambda>(k, v). (k, if v = PStr [] then PNone else v)) values"

text \<open>
  The key under which a dictionary supplies a field: its alias when present, else
  its name.
\<close>

definition field_key :: "(string \<times> pyval) list \<Rightarrow> string \<Rightarrow> string \<Rightarrow> string" where
  "field_key values alias name = (if map_of values alias \<noteq> None then alias else name)"

text \<open>
  A field validator of mode before, applied to the entry under a key of a
  dictionary; an exception leaves, a ValueError as a validation error.
\<close>

fun validate_entry ::
  "string \<Rightarrow> (pyval \<Rightarrow> error + pyval) \<Rightarrow> (string \<times> pyval) list \<Rightarrow>
   error + (string \<times> pyval) list" where
  "validate_entry key f [] = Inr []"
| "validate_entry key f ((k, v) # kvs) =
     (if k = key then
        (case as_validation (f v) of
           Inl e \<Rightarrow> Inl e
         | Inr v' \<Rightarrow> Inr ((k, v') # kvs))
      else
        (case validate_entry key f kvs of
           Inl e \<Rightarrow> Inl e
         | Inr kvs' \<Rightarrow> Inr ((k, v) # kvs')))"

text \<open>
  The validators of \<^verbatim>\<open>BenzingaPriceTargetData\<close> in the order they run: the
  model validator, then the two field validators.
\<close>

definition Benzinga_validators ::
  "(string \<Rightarrow> int option) \<Rightarrow> (string \<times> pyval) list \<Rightarrow> error + (string \<times> pyval) list" where
  "Benzinga_validators strptime item =
     (let values = replace_empty_strings item in
      case validate_entry (field_key values ''date'' ''published_date'')
             (parse_date strptime) values of
        Inl e \<Rightarrow> Inl e
      | Inr values1 \<Rightarrow>
          validate_entry (field_key values1 ''updated'' ''last_updated'')
            validate_date values1)"

text \<open>
  \<^verbatim>\<open>BenzingaPriceTargetData.model_validate(item)\<close>: the validators above, then
  the validation of the declared types by the framework (\<open>typed\<close>), which builds
  the record.
\<close>

definition Benzinga_model_validate ::
  "(string \<Rightarrow> int option) \<Rightarrow> ((string \<times> pyval) list \<Rightarrow> error + 'r) \<Rightarrow>
   (string \<times> pyval) list \<Rightarrow> error + 'r" where
  "Benzinga_model_validate strptime typed item =
     (case Benzinga_validators strptime item of
        Inl e \<Rightarrow> Inl e
      | Inr values \<Rightarrow> typed values)"

section \<open>Benzinga: fetcher\<close>

text \<open>
  \<^verbatim>\<open>credentials.get(key) if credentials else ""\<close>, as it is formatted into a URL.
\<close>

definition credential :: "(string \<times> string) list option \<Rightarrow> string \<Rightarrow> string" where
  "credential credentials key =
     (case credentials of
        None \<Rightarrow> []
      | Some kvs \<Rightarrow>
          (if kvs = [] then []
           else (case map_of kvs key of Some t \<Rightarrow> t | None \<Rightarrow> ''None'')))"

text \<open>
  The part of the extraction that follows the request: \<open>data\<close> is the list
  \<^verbatim>\<open>amake_requests\<close> returned.
\<close>

fun ratings_of :: "pyval list \<Rightarrow> error + pyval" where
  "ratings_of [] = Inl EmptyDataError"
| "ratings_of (PDict kvs # rest) =
     (case map_of kvs ''ratings'' of Some r \<Rightarrow> Inr r | None \<Rightarrow> Inr PNone)"
| "ratings_of (v # rest) = Inl AttributeError"

text \<open>
  The URL of the request: \<open>querystring\<close> is
  \<^verbatim>\<open>get_querystring(query.model_dump(by_alias=True), [])\<close>.
\<close>

definition Benzinga_url ::
  "('q \<Rightarrow> string) \<Rightarrow> 'q \<Rightarrow> (string \<times> string) list option \<Rightarrow> string" where
  "Benzinga_url querystring query credentials =
     (let token = credential credentials ''benzinga_api_key'';
          base_url = ''https://api.benzinga.com/api/v2.1/calendar/ratings''
      in base_url @ ''?'' @ querystring query @ ''&token='' @ token)"

text \<open>
  The extraction step, with the query object threaded through; \<open>amake_requests\<close>
  is the HTTP helper.  Nothing in the body assigns to the query.
\<close>

definition Benzinga_aextract_data ::
  "('q \<Rightarrow> string) \<Rightarrow> (string \<Rightarrow> error + pyval list) \<Rightarrow>
   'q \<Rightarrow> (string \<times> string) list option \<Rightarrow> 'q \<times> (error + pyval)" where
  "Benzinga_aextract_data querystring amake_requests query credentials =
     (case amake_requests (Benzinga_url querystring query credentials) of
        Inl e \<Rightarrow> (query, Inl e)
      | Inr data \<Rightarrow> (query, ratings_of data))"

text \<open>
  The results of a loop body over a list, in order; the first exception leaves.
\<close>

fun collect :: "('a \<Rightarrow> error + 'b) \<Rightarrow> 'a list \<Rightarrow> error + 'b list" where
  "collect f [] = Inr []"
| "collect f (x # xs) =
     (case f x of
        Inl e \<Rightarrow> Inl e
      | Inr y \<Rightarrow> (case collect f xs of Inl e \<Rightarrow> Inl e | Inr ys \<Rightarrow> Inr (y # ys)))"

text \<open>
  The body of the loop of \<^verbatim>\<open>transform_data\<close>: drop \<^verbatim>\<open>url_calendar\<close>, then
  validate.
\<close>

fun Benzinga_transform_item ::
  "(string \<Rightarrow> int option) \<Rightarrow> ((string \<times> pyval) list \<Rightarrow> error + 'r) \<Rightarrow> pyval \<Rightarrow> error + 'r" where
  "Benzinga_transform_item strptime typed (PDict kvs) =
     Benzinga_model_validate strptime typed (AList.delete ''url_calendar'' kvs)"
| "Benzinga_transform_item strptime typed (PList xs) = Inl TypeError"
| "Benzinga_transform_item strptime typed v = Inl AttributeError"

definition Benzinga_transform_data ::
  "(string \<Rightarrow> int option) \<Rightarrow> ((string \<times> pyval) list \<Rightarrow> error + 'r) \<Rightarrow>
   pyval list \<Rightarrow> error + 'r list" where
  "Benzinga_transform_data strptime typed data =
     collect (Benzinga_transform_item strptime typed) data"

section \<open>FMP: data model and fetcher\<close>

record FMPPriceTargetQueryParams =
  symbol :: "string option"
  with_grade :: bool

text \<open>\<^verbatim>\<open>s.split(c)\<close> for a one-character separator: never the empty list.\<close>

fun split_str :: "char \<Rightarrow> string \<Rightarrow> string list" where
  "split_str c [] = [[]]"
| "split_str c (x # xs) =
     (if x = c then [] # split_str c xs
      else (case split_str c xs of
              w # ws \<Rightarrow> (x # w) # ws
            | [] \<Rightarrow> [[x]]))"

text \<open>\<^verbatim>\<open>credentials.get("fmp_api_key") if credentials else ""\<close>.\<close>

definition api_key_of :: "(string \<times> string) list option \<Rightarrow> string option" where
  "api_key_of credentials =
     (case credentials of
        None \<Rightarrow> Some []
      | Some kvs \<Rightarrow> (if kvs = [] then Some [] else map_of kvs ''fmp_api_key''))"

text \<open>
  The loop of the extraction step: each symbol is assigned to the query object and
  the URL is built from the query as it then stands.
\<close>

fun build_urls ::
  "('a FMPPriceTargetQueryParams_scheme \<Rightarrow> string) \<Rightarrow> string list \<Rightarrow>
   'a FMPPriceTargetQueryParams_scheme \<Rightarrow> string list \<Rightarrow>
   'a FMPPriceTargetQueryParams_scheme \<times> string list" where
  "build_urls mk [] query urls = (query, urls)"
| "build_urls mk (s # ss) query urls =
     (let query' = query\<lparr>symbol := Some s\<rparr>
      in build_urls mk ss query' (urls @ [mk query']))"

text \<open>
  Modelled from the spec: \<^verbatim>\<open>get_data_urls\<close> of \<^verbatim>\<open>openbb_fmp.utils.helpers\<close>
  is not among the sources.  It issues one request per URL (\<open>fetch\<close>), a failed
  request is terminal, and the results are concatenated in the order of the URLs.
\<close>

definition get_data_urls ::
  "(string \<Rightarrow> error + pyval list) \<Rightarrow> string list \<Rightarrow> error + pyval list" where
  "get_data_urls fetch urls =
     (case collect fetch urls of Inl e \<Rightarrow> Inl e | Inr rs \<Rightarrow> Inr (concat rs))"

text \<open>
  The extraction step, returning the query object as the loop leaves it.
  \<open>create_url\<close> is the URL builder of \<^verbatim>\<open>openbb_fmp.utils.helpers\<close>.
\<close>

definition endpoint_of :: "'a FMPPriceTargetQueryParams_scheme \<Rightarrow> string" where
  "endpoint_of query = (if with_grade query then ''upgrades-downgrades'' else ''price-target'')"

definition FMP_aextract_data ::
  "(int \<Rightarrow> string \<Rightarrow> string option \<Rightarrow> 'a FMPPriceTargetQueryParams_scheme \<Rightarrow>
      string list \<Rightarrow> string) \<Rightarrow>
   (string \<Rightarrow> error + pyval list) \<Rightarrow>
   'a FMPPriceTargetQueryParams_scheme \<Rightarrow> (string \<times> string) list option \<Rightarrow>
   'a FMPPriceTargetQueryParams_scheme \<times> (error + pyval list)" where
  "FMP_aextract_data create_url fetch query credentials =
     (let api_key = api_key_of credentials;
          endpoint = endpoint_of query
      in case symbol query of
           None \<Rightarrow> (query, Inl AttributeError)
         | Some sy \<Rightarrow>
             (case build_urls (\<lambda>q. create_url 4 endpoint api_key q [''limit''])
                     (split_str CHR '','' sy) query [] of
                (query', urls) \<Rightarrow> (query', get_data_urls fetch urls)))"

text \<open>
  The URL of one symbol as the spec has it: the query with that symbol alone.
\<close>

definition url_of_symbol ::
  "(int \<Rightarrow> string \<Rightarrow> string option \<Rightarrow> 'a FMPPriceTargetQueryParams_scheme \<Rightarrow>
      string list \<Rightarrow> string) \<Rightarrow>
   'a FMPPriceTargetQueryParams_scheme \<Rightarrow> (string \<times> string) list option \<Rightarrow>
   string \<Rightarrow> string" where
  "url_of_symbol create_url query credentials sy =
     create_url 4 (endpoint_of query) (api_key_of credentials)
       (query\<lparr>symbol := Some sy\<rparr>) [''limit'']"

text \<open>
  The validator of \<^verbatim>\<open>published_date\<close> (mode before): newlines are removed and
  the string is parsed; \<open>strptime\<close> is
  \<^verbatim>\<open>datetime.strptime(v, "%Y-%m-%dT%H:%M:%S.%fZ")\<close>.
\<close>

fun FMP_validate_date :: "(string \<Rightarrow> (int \<times> nat \<times> nat) option) \<Rightarrow> pyval \<Rightarrow> error + pyval" where
  "FMP_validate_date strptime (PStr s) =
     (case strptime (filter (\<lambda>c. c \<noteq> CHR 0x0A) s) of
        Some (d, t, u) \<Rightarrow> Inr (PDatetime d t u)
      | None \<Rightarrow> Inl ValueError)"
| "FMP_validate_date strptime (PDate d) = Inl TypeError"
| "FMP_validate_date strptime (PDatetime d t u) = Inl TypeError"
| "FMP_validate_date strptime v = Inl AttributeError"

definition FMP_model_validate ::
  "(string \<Rightarrow> (int \<times> nat \<times> nat) option) \<Rightarrow> ((string \<times> pyval) list \<Rightarrow> error + 'r) \<Rightarrow>
   (string \<times> pyval) list \<Rightarrow> error + 'r" where
  "FMP_model_validate strptime typed item =
     (case validate_entry ''published_date'' (FMP_validate_date strptime) item of
        Inl e \<Rightarrow> Inl e
      | Inr values1 \<Rightarrow> typed values1)"

text \<open>
  The dictionary comprehension of \<^verbatim>\<open>transform_data\<close>: the key
  \<^verbatim>\<open>analystCompany\<close> becomes \<^verbatim>\<open>analyst_firm\<close>, a later entry overwriting an
  earlier one under the same key.
\<close>

definition new_item :: "(string \<times> pyval) list \<Rightarrow> (string \<times> pyval) list" where
  "new_item item =
     fold (\<lambda>(k, v) acc.
             AList.update (if k \<noteq> ''analystCompany'' then k else ''analyst_firm'') v acc)
          item []"

fun FMP_transform_item ::
  "(string \<Rightarrow> (int \<times> nat \<times> nat) option) \<Rightarrow> ((string \<times> pyval) list \<Rightarrow> error + 'r) \<Rightarrow>
   pyval \<Rightarrow> error + 'r" where
  "FMP_transform_item strptime typed (PDict kvs) =
     FMP_model_validate strptime typed (new_item kvs)"
| "FMP_transform_item strptime typed v = Inl AttributeError"

definition FMP_transform_data ::
  "(string \<Rightarrow> (int \<times> nat \<times> nat) option) \<Rightarrow> ((string \<times> pyval) list \<Rightarrow> error + 'r) \<Rightarrow>
   pyval list \<Rightarrow> error + 'r list" where
  "FMP_transform_data strptime typed data =
     collect (FMP_transform_item strptime typed) data"

section \<open>Auxiliary facts\<close>

lemma COVERAGE_DICT_keys: "map fst COVERAGE_DICT = action_literals"
  by (simp add: COVERAGE_DICT_def action_literals_def)

lemma raised_None_iff: "raised rs b = None \<longleftrightarrow> \<not> b \<and> (\<forall>r\<in>set rs. \<exists>v. r = Inr v)"
  by (induction rs b rule: raised.induct) auto

lemma raised_validation_only:
  "(\<forall>r\<in>set rs. \<forall>e. r = Inl e \<longrightarrow> e = ValidationError) \<Longrightarrow>
   raised rs b = (if b \<or> Inl ValidationError \<in> set rs then Some ValidationError else None)"
  by (induction rs b rule: raised.induct) auto

lemma action_field_invalid:
  "v \<noteq> PNone \<Longrightarrow> \<forall>c\<in>set action_literals. v \<noteq> PStr c \<Longrightarrow>
   run_field Inr action_type convert_action PNone (Some v) = Inl ValidationError"
  by (cases v) (auto simp: run_field_def as_validation_def)

lemma action_result_mem:
  "run_field Inr action_type convert_action PNone
     (field_input params ''parameters[action]'' ''action'') \<in> set (field_results typed dflt params)"
  by (simp add: field_results_def)

lemma transform_query_ok:
  assumes "\<forall>r\<in>set (field_results typed dflt params). \<exists>x. r = Inr x"
  shows "\<exists>q. transform_query typed dflt params = Inr q \<and>
           map Inr [bz_symbol q, bz_limit q, bz_page q, bz_date q, bz_start_date q,
                    bz_end_date q, bz_updated q, bz_importance q, bz_action q,
                    bz_analyst_ids q, bz_firm_ids q, bz_fields q] =
           field_results typed dflt params"
proof -
  have r: "raised (field_results typed dflt params) False = None"
    using assms by (simp add: raised_None_iff)
  have l: "length (field_results typed dflt params) = 12"
    by (simp add: field_results_def)
  have n: "\<And>i. i < 12 \<Longrightarrow> Inr (projr (field_results typed dflt params ! i)) =
             field_results typed dflt params ! i"
  proof -
    fix i :: nat assume "i < 12"
    then have "field_results typed dflt params ! i \<in> set (field_results typed dflt params)"
      using l by simp
    then obtain x where "field_results typed dflt params ! i = Inr x" using assms by blast
    then show "Inr (projr (field_results typed dflt params ! i)) =
             field_results typed dflt params ! i" by simp
  qed
  have "map Inr (map (\<lambda>i. projr (field_results typed dflt params ! i)) [0..<12]) =
        field_results typed dflt params"
    by (rule nth_equalityI) (simp_all add: l n)
  moreover have "[0..<12] = [0,1,2,3,4,5,6,7,8,9,10,11::nat]"
    by (simp add: upt_rec)
  ultimately show ?thesis
    using r by (simp add: transform_query_def Let_def)
qed

lemma validate_date_midnight:
  "n \<noteq> 0 \<Longrightarrow> - 719162 * 86400 \<le> n \<Longrightarrow> n < 2932897 * 86400 \<Longrightarrow> n mod 86400 = 0 \<Longrightarrow>
   validate_date (PInt n) = Inr (PDate (n div 86400))"
  by (simp add: fromtimestamp_def)

lemma validate_date_not_midnight:
  "- 719162 * 86400 \<le> n \<Longrightarrow> n < 2932897 * 86400 \<Longrightarrow> n mod 86400 \<noteq> 0 \<Longrightarrow>
   validate_date (PInt n) = Inr (PDatetime (n div 86400) (nat (n mod 86400)) 0)"
  by (auto simp add: fromtimestamp_def)

lemma replace_empty_strings_None:
  "map_of item k = Some (PStr []) \<Longrightarrow> map_of (replace_empty_strings item) k = Some PNone"
  by (induction item) (auto simp: replace_empty_strings_def)

lemma replace_empty_strings_no_empty: "PStr [] \<notin> snd ` set (replace_empty_strings item)"
  by (induction item) (auto simp: replace_empty_strings_def split: if_splits)

lemma as_validation_Inr: "as_validation r = Inr v \<longleftrightarrow> r = Inr v"
  by (auto simp: as_validation_def split: sum.splits error.splits)

lemma validate_entry_keeps_None:
  "validate_entry key f kvs = Inr kvs' \<Longrightarrow> f PNone = Inr PNone \<Longrightarrow>
   map_of kvs k = Some PNone \<Longrightarrow> map_of kvs' k = Some PNone"
proof (induction kvs arbitrary: kvs')
  case Nil
  then show ?case by simp
next
  case (Cons kv kvs)
  obtain k0 v0 where kv: "kv = (k0, v0)" by (cases kv)
  show ?case
  proof (cases "k0 = key")
    case True
    with Cons.prems kv obtain v' where v': "f v0 = Inr v'" "kvs' = (k0, v') # kvs"
      by (auto simp: as_validation_Inr split: sum.splits)
    with Cons.prems kv show ?thesis by (auto split: if_splits)
  next
    case False
    with Cons.prems kv obtain r where r: "validate_entry key f kvs = Inr r" "kvs' = (k0, v0) # r"
      by (auto split: sum.splits)
    with Cons.prems Cons.IH[OF r(1)] kv show ?thesis by (auto split: if_splits)
  qed
qed

lemma validate_entry_no_empty:
  "validate_entry key f kvs = Inr kvs' \<Longrightarrow> PStr [] \<notin> snd ` set kvs \<Longrightarrow>
   (\<And>v v'. v \<noteq> PStr [] \<Longrightarrow> f v = Inr v' \<Longrightarrow> v' \<noteq> PStr []) \<Longrightarrow>
   PStr [] \<notin> snd ` set kvs'"
proof (induction kvs arbitrary: kvs')
  case Nil
  then show ?case by simp
next
  case (Cons kv kvs)
  obtain k0 v0 where kv: "kv = (k0, v0)" by (cases kv)
  have v0: "v0 \<noteq> PStr []" and rest: "PStr [] \<notin> snd ` set kvs"
    using Cons.prems(2) kv by auto
  show ?case
  proof (cases "k0 = key")
    case True
    with Cons.prems(1) kv obtain v' where v': "f v0 = Inr v'" "kvs' = (k0, v') # kvs"
      by (auto simp: as_validation_Inr split: sum.splits)
    have "v' \<noteq> PStr []" using Cons.prems(3)[OF v0 v'(1)] .
    with v' rest show ?thesis by auto
  next
    case False
    with Cons.prems(1) kv obtain r where r: "validate_entry key f kvs = Inr r" "kvs' = (k0, v0) # r"
      by (auto split: sum.splits)
    have "PStr [] \<notin> snd ` set r"
      using Cons.IH[OF r(1) rest] Cons.prems(3) by blast
    with r v0 show ?thesis by auto
  qed
qed

lemma parse_date_not_empty: "parse_date strptime v = Inr v' \<Longrightarrow> v' \<noteq> PStr []"
  by (auto split: if_splits pyval.splits option.splits)

lemma validate_date_not_empty: "v \<noteq> PStr [] \<Longrightarrow> validate_date v = Inr v' \<Longrightarrow> v' \<noteq> PStr []"
  by (auto split: if_splits pyval.splits sum.splits prod.splits)

lemma Benzinga_validators_steps:
  assumes "Benzinga_validators strptime item = Inr vs"
  obtains vs1 where
    "validate_entry (field_key (replace_empty_strings item) ''date'' ''published_date'')
       (parse_date strptime) (replace_empty_strings item) = Inr vs1"
    "validate_entry (field_key vs1 ''updated'' ''last_updated'') validate_date vs1 = Inr vs"
  using assms by (auto simp: Benzinga_validators_def Let_def split: sum.splits)

lemma collect_all:
  "(\<forall>x\<in>set xs. \<exists>y. f x = Inr y) \<Longrightarrow>
   \<exists>ys. collect f xs = Inr ys \<and> length ys = length xs \<and> (\<forall>i<length xs. f (xs ! i) = Inr (ys ! i))"
proof (induction xs)
  case Nil
  then show ?case by simp
next
  case (Cons x xs)
  then obtain y where y: "f x = Inr y" by auto
  from Cons obtain ys where ys: "collect f xs = Inr ys" "length ys = length xs"
    "\<forall>i<length xs. f (xs ! i) = Inr (ys ! i)" by auto
  have "\<forall>i<length (x # xs). f ((x # xs) ! i) = Inr ((y # ys) ! i)"
    using y ys(3) by (auto simp: nth_Cons split: nat.splits)
  with y ys show ?case by simp
qed

lemma collect_map:
  "(\<forall>x\<in>set xs. f (h x) = Inr (g x)) \<Longrightarrow> collect f (map h xs) = Inr (map g xs)"
  by (induction xs) auto

lemma split_str_nonempty: "split_str c s \<noteq> []"
  by (induction s) (auto split: list.splits)

lemma length_split_str: "length (split_str c s) = Suc (count_list s c)"
  by (induction s) (auto split: list.splits simp: split_str_nonempty)

lemma build_urls_snd:
  "snd (build_urls mk syms q acc) = acc @ map (\<lambda>sy. mk (q\<lparr>symbol := Some sy\<rparr>)) syms"
  by (induction syms arbitrary: q acc) (simp_all add: Let_def)

lemma build_urls_fst:
  "fst (build_urls mk syms q acc) = (if syms = [] then q else q\<lparr>symbol := Some (last syms)\<rparr>)"
  by (induction syms arbitrary: q acc) (simp_all add: Let_def)

lemma FMP_aextract_data_fst:
  "fst (FMP_aextract_data create_url fetch q creds) =
       (case symbol q of
          None \<Rightarrow> q
        | Some s \<Rightarrow> q\<lparr>symbol := Some (last (split_str CHR '','' s))\<rparr>)"
proof (cases "symbol q")
  case None
  then show ?thesis by (simp add: FMP_aextract_data_def)
next
  case (Some s)
  let ?mk = "\<lambda>qq. create_url 4 (endpoint_of q) (api_key_of creds) qq [''limit'']"
  obtain q' urls where b: "build_urls ?mk (split_str CHR '','' s) q [] = (q', urls)"
    by (cases "build_urls ?mk (split_str CHR '','' s) q []")
  have "q' = fst (build_urls ?mk (split_str CHR '','' s) q [])" using b by simp
  then have "q' = q\<lparr>symbol := Some (last (split_str CHR '','' s))\<rparr>"
    by (simp add: build_urls_fst split_str_nonempty)
  with Some b show ?thesis by (simp add: FMP_aextract_data_def)
qed

lemma FMP_aextract_data_snd:
  assumes "symbol q = Some s"
  shows "snd (FMP_aextract_data create_url fetch q creds) =
     get_data_urls fetch (map (url_of_symbol create_url q creds) (split_str CHR '','' s))"
proof -
  let ?mk = "\<lambda>qq. create_url 4 (endpoint_of q) (api_key_of creds) qq [''limit'']"
  obtain q' urls where b: "build_urls ?mk (split_str CHR '','' s) q [] = (q', urls)"
    by (cases "build_urls ?mk (split_str CHR '','' s) q []")
  have "urls = snd (build_urls ?mk (split_str CHR '','' s) q [])" using b by simp
  then have "urls = map (url_of_symbol create_url q creds) (split_str CHR '','' s)"
    by (simp add: build_urls_snd url_of_symbol_def)
  with assms b show ?thesis by (simp add: FMP_aextract_data_def)
qed

section \<open>Benzinga extraction: empty and malformed responses\<close>

text \<open>
  Claim C1, as the code has it: when the HTTP helper returns a list of responses,
  the extraction step raises EmptyDataError exactly when that list is empty; a
  response whose \<^verbatim>\<open>ratings\<close> entry is an empty list is not an error, the empty
  list is returned.
\<close>

theorem aextract_data_empty_response:
  "amake_requests (Benzinga_url querystring query credentials) = Inr data \<Longrightarrow>
   (snd (Benzinga_aextract_data querystring amake_requests query credentials) =
      Inl EmptyDataError \<longleftrightarrow> data = [])
   \<and> (data = PDict kvs # rest \<and> map_of kvs ''ratings'' = Some (PList []) \<longrightarrow>
        snd (Benzinga_aextract_data querystring amake_requests query credentials) =
          Inr (PList []))"
  by (cases data rule: ratings_of.cases) (auto simp: Benzinga_aextract_data_def split: option.splits)

theorem aextract_data_empty_response_witness:
  "snd (Benzinga_aextract_data (\<lambda>q. ''page=0'') (\<lambda>url. Inr []) () None) = Inl EmptyDataError
   \<and> snd (Benzinga_aextract_data (\<lambda>q. ''page=0'')
            (\<lambda>url. Inr [PDict [(''ratings'', PList [])]]) () None) = Inr (PList [])"
  using aextract_data_empty_response[where amake_requests = "\<lambda>url. Inr []"
      and querystring = "\<lambda>q. ''page=0''" and query = "()" and credentials = None
      and data = "[]"]
    aextract_data_empty_response[where
      amake_requests = "\<lambda>url. Inr [PDict [(''ratings'', PList [])]]"
      and querystring = "\<lambda>q. ''page=0''" and query = "()" and credentials = None
      and data = "[PDict [(''ratings'', PList [])]]" and kvs = "[(''ratings'', PList [])]"
      and rest = "[]"]
  by simp

text \<open>
  The claim as the spec states it fails: a payload holding zero ratings inside a
  non-empty response is returned as the empty list, and no error is raised.
\<close>

theorem aextract_data_zero_ratings_counterexample:
  "snd (Benzinga_aextract_data (\<lambda>q. ''page=0'')
          (\<lambda>url. Inr [PDict [(''ratings'', PList [])]]) () None) = Inr (PList [])
   \<and> snd (Benzinga_aextract_data (\<lambda>q. ''page=0'')
          (\<lambda>url. Inr [PDict [(''ratings'', PList [])]]) () None) \<noteq> Inl EmptyDataError"
  by (simp add: Benzinga_aextract_data_def)

text \<open>
  Claim C10: when the response list is non-empty and its first element is a
  dictionary without a \<^verbatim>\<open>ratings\<close> key, the extraction step raises nothing and
  returns None, which is no list of records.
\<close>

theorem aextract_data_no_ratings_key:
  "amake_requests (Benzinga_url querystring query credentials) = Inr (PDict kvs # rest) \<Longrightarrow>
   map_of kvs ''ratings'' = None \<Longrightarrow>
   snd (Benzinga_aextract_data querystring amake_requests query credentials) = Inr PNone"
  by (simp add: Benzinga_aextract_data_def)

theorem aextract_data_no_ratings_key_witness:
  "map_of [(''message'', PStr ''no data'')] ''ratings'' = None
   \<and> snd (Benzinga_aextract_data (\<lambda>q. ''page=0'')
            (\<lambda>url. Inr [PDict [(''message'', PStr ''no data'')]]) () None) = Inr PNone"
  using aextract_data_no_ratings_key[where
      amake_requests = "\<lambda>url. Inr [PDict [(''message'', PStr ''no data'')]]"
      and querystring = "\<lambda>q. ''page=0''" and query = "()" and credentials = None
      and kvs = "[(''message'', PStr ''no data'')]" and rest = "[]"]
  by simp

section \<open>The query object across the extraction step\<close>

text \<open>
  Claim C2, as the code has it: the Benzinga extraction step leaves the query
  object as it was; the FMP extraction step leaves every field but \<^verbatim>\<open>symbol\<close>
  as it was and leaves \<^verbatim>\<open>symbol\<close> set to the last of the comma-separated symbols
  (nothing is assigned when \<^verbatim>\<open>symbol\<close> is None, where the step raises).
\<close>

theorem aextract_data_query_frame:
  "fst (Benzinga_aextract_data querystring amake_requests query credentials) = query
   \<and> fst (FMP_aextract_data create_url fetch q creds) =
       (case symbol q of
          None \<Rightarrow> q
        | Some s \<Rightarrow> q\<lparr>symbol := Some (last (split_str CHR '','' s))\<rparr>)"
proof
  show "fst (Benzinga_aextract_data querystring amake_requests query credentials) = query"
    by (simp add: Benzinga_aextract_data_def split: sum.splits)
  show "fst (FMP_aextract_data create_url fetch q creds) =
       (case symbol q of
          None \<Rightarrow> q
        | Some s \<Rightarrow> q\<lparr>symbol := Some (last (split_str CHR '','' s))\<rparr>)"
    by (rule FMP_aextract_data_fst)
qed

text \<open>
  The claim as the spec states it fails for FMP: after the extraction step on a
  query for two symbols, the field \<^verbatim>\<open>symbol\<close> holds the second symbol only.
\<close>

theorem aextract_data_query_counterexample:
  "symbol (fst (FMP_aextract_data
       (\<lambda>version endpoint api_key q exclude. case symbol q of Some s \<Rightarrow> s | None \<Rightarrow> [])
       (\<lambda>url. Inr []) \<lparr>symbol = Some ''AAPL,MSFT'', with_grade = False\<rparr> None)) = Some ''MSFT''
   \<and> fst (FMP_aextract_data
       (\<lambda>version endpoint api_key q exclude. case symbol q of Some s \<Rightarrow> s | None \<Rightarrow> [])
       (\<lambda>url. Inr []) \<lparr>symbol = Some ''AAPL,MSFT'', with_grade = False\<rparr> None)
     \<noteq> \<lparr>symbol = Some ''AAPL,MSFT'', with_grade = False\<rparr>"
  by (simp add: FMP_aextract_data_def Let_def)

section \<open>The \<^verbatim>\<open>updated\<close> query field\<close>

text \<open>
  Claim C3 fails on the code: the validator of \<^verbatim>\<open>updated\<close> returns None for
  every epoch integer, where a date becomes the timestamp of its midnight, and a
  query built with \<^verbatim>\<open>updated=1700000000\<close> holds None in that field.
\<close>

theorem date_validate_epoch_discarded:
  "date_validate (PInt n) = PNone
   \<and> date_validate (PDate d) = PInt (d * 86400)
   \<and> map_sum id bz_updated
        (transform_query (\<lambda>name. Inr) (\<lambda>name. PNone) [(''updated'', PInt 1700000000)]) =
       Inr PNone"
  by (simp add: transform_query_def field_results_def run_field_def field_input_def
        as_validation_def)

section \<open>Empty strings in response records\<close>

text \<open>
  Claim C4, as the code has it, for the Benzinga data model: a field whose raw value
  is the empty string is None after the model validator, it is still None after
  the field validators, and no value handed to the typed validation is the empty
  string.
\<close>

theorem replace_empty_strings_null:
  "(map_of item k = Some (PStr []) \<longrightarrow> map_of (replace_empty_strings item) k = Some PNone)
   \<and> (Benzinga_validators strptime item = Inr vs \<longrightarrow>
        PStr [] \<notin> snd ` set vs \<and>
        (map_of item k = Some (PStr []) \<longrightarrow> map_of vs k = Some PNone))"
proof (intro conjI impI)
  show "map_of item k = Some (PStr []) \<Longrightarrow> map_of (replace_empty_strings item) k = Some PNone"
    by (rule replace_empty_strings_None)
next
  assume "Benzinga_validators strptime item = Inr vs"
  then obtain vs1 where s:
    "validate_entry (field_key (replace_empty_strings item) ''date'' ''published_date'')
       (parse_date strptime) (replace_empty_strings item) = Inr vs1"
    "validate_entry (field_key vs1 ''updated'' ''last_updated'') validate_date vs1 = Inr vs"
    by (rule Benzinga_validators_steps)
  have 1: "PStr [] \<notin> snd ` set vs1"
    by (rule validate_entry_no_empty[OF s(1) replace_empty_strings_no_empty])
       (rule parse_date_not_empty)
  show "PStr [] \<notin> snd ` set vs"
    by (rule validate_entry_no_empty[OF s(2) 1]) (rule validate_date_not_empty)
  assume "map_of item k = Some (PStr [])"
  then have "map_of (replace_empty_strings item) k = Some PNone"
    by (rule replace_empty_strings_None)
  then have "map_of vs1 k = Some PNone"
    using validate_entry_keeps_None[OF s(1)] by simp
  then show "map_of vs k = Some PNone"
    using validate_entry_keeps_None[OF s(2)] by simp
qed

theorem replace_empty_strings_null_witness:
  "map_of [(''ticker'', PStr ''AAPL''), (''notes'', PStr [])] ''notes'' = Some (PStr [])
   \<and> Benzinga_validators (\<lambda>s. None) [(''ticker'', PStr ''AAPL''), (''notes'', PStr [])] =
       Inr [(''ticker'', PStr ''AAPL''), (''notes'', PNone)]
   \<and> map_of (replace_empty_strings [(''ticker'', PStr ''AAPL''), (''notes'', PStr [])]) ''notes''
       = Some PNone
   \<and> PStr [] \<notin> snd ` set [(''ticker'', PStr ''AAPL''), (''notes'', PNone)]"
  using replace_empty_strings_null[where item = "[(''ticker'', PStr ''AAPL''), (''notes'', PStr [])]"
      and k = "''notes''" and strptime = "\<lambda>s. None"
      and vs = "[(''ticker'', PStr ''AAPL''), (''notes'', PNone)]"]
  by (simp add: Benzinga_validators_def replace_empty_strings_def field_key_def)

text \<open>
  The claim as the spec states it fails for FMP, whose data model replaces nothing:
  an empty \<^verbatim>\<open>newsTitle\<close> reaches the typed validation, here the identity, as the
  empty string.  The publication time 2024-01-02T03:04:05 is day 19724, second 11045.
\<close>

theorem FMP_empty_string_counterexample:
  "FMP_transform_data
     (\<lambda>s. if s = ''2024-01-02T03:04:05.000Z'' then Some (19724, 11045, 0) else None) Inr
     [PDict [(''symbol'', PStr ''AAPL''),
             (''published_date'', PStr ''2024-01-02T03:04:05.000Z''),
             (''newsTitle'', PStr [])]] =
   Inr [[(''symbol'', PStr ''AAPL''),
         (''published_date'', PDatetime 19724 11045 0),
         (''newsTitle'', PStr [])]]"
  by (simp add: FMP_transform_data_def FMP_model_validate_def new_item_def as_validation_def)

section \<open>Action codes\<close>

text \<open>
  Claim C5: a query built with one of the eleven action codes holds the wire
  string the coverage dictionary gives for it; the keys of the dictionary are the
  eleven literals; and distinct codes give distinct wire strings, so the wire
  string determines the code.
\<close>

theorem convert_action_wire:
  "(\<forall>(c, w) \<in> set COVERAGE_DICT.
      map_sum id bz_action (transform_query typed dflt [(''action'', PStr c)]) = Inr (PStr w))
   \<and> map fst COVERAGE_DICT = action_literals
   \<and> inj_on (\<lambda>c. convert_action (PStr c)) (set action_literals)"
  by (simp add: COVERAGE_DICT_def action_literals_def transform_query_def field_results_def
        run_field_def field_input_def as_validation_def)

theorem convert_action_wire_witness:
  "(''initiates'', ''Initiates Coverage On'') \<in> set COVERAGE_DICT
   \<and> map_sum id bz_action
        (transform_query (\<lambda>name. Inr) (\<lambda>name. PNone) [(''action'', PStr ''initiates'')]) =
       Inr (PStr ''Initiates Coverage On'')
   \<and> convert_action (PStr ''initiates'') \<noteq> convert_action (PStr ''terminates'')"
proof -
  have m: "(''initiates'', ''Initiates Coverage On'') \<in> set COVERAGE_DICT"
    by (simp add: COVERAGE_DICT_def)
  have a: "''initiates'' \<in> set action_literals" and b: "''terminates'' \<in> set action_literals"
    by (simp_all add: action_literals_def)
  note w = convert_action_wire[where typed = "\<lambda>name. Inr" and dflt = "\<lambda>name. PNone"]
  from w m have "map_sum id bz_action
        (transform_query (\<lambda>name. Inr) (\<lambda>name. PNone) [(''action'', PStr ''initiates'')]) =
       Inr (PStr ''Initiates Coverage On'')"
    by blast
  moreover from w have inj: "inj_on (\<lambda>c. convert_action (PStr c)) (set action_literals)"
    by blast
  have ne: "''initiates'' \<noteq> ''terminates''" by simp
  have "convert_action (PStr ''initiates'') \<noteq> convert_action (PStr ''terminates'')"
    using inj_onD[OF inj _ a b] ne by blast
  ultimately show ?thesis using m by blast
qed

section \<open>The \<^verbatim>\<open>last_updated\<close> data field\<close>

text \<open>
  Claim C6 fails on the code at the timestamp 0, which is midnight of 1970-01-01:
  the validator tests the truth value of the timestamp and returns 0 as it is, so no
  bare date is produced.  (For every other timestamp in range,
  \<open>validate_date_midnight\<close> and \<open>validate_date_not_midnight\<close> give what the
  claim says.)
\<close>

theorem validate_date_epoch_zero:
  "validate_date (PInt 0) = Inr (PInt 0)
   \<and> validate_date (PInt 86400) = Inr (PDate 1)
   \<and> validate_date (PInt 86401) = Inr (PDatetime 1 1 0)"
  by (simp add: fromtimestamp_def)

section \<open>FMP extraction: one request per symbol\<close>

text \<open>
  Claim C7: for a query whose \<^verbatim>\<open>symbol\<close> holds comma-separated symbols, the
  extraction step requests exactly the URLs of the symbols, one per symbol in input
  order (one more than the number of commas), and when every request succeeds the
  result is the concatenation of the per-symbol results in that order.
\<close>

theorem aextract_data_per_symbol:
  assumes "symbol q = Some s"
  shows "snd (FMP_aextract_data create_url fetch q creds) =
           get_data_urls fetch (map (url_of_symbol create_url q creds) (split_str CHR '','' s))
         \<and> length (map (url_of_symbol create_url q creds) (split_str CHR '','' s)) =
             Suc (count_list s CHR '','')
         \<and> ((\<forall>sy\<in>set (split_str CHR '','' s).
                fetch (url_of_symbol create_url q creds sy) = Inr (recs sy)) \<longrightarrow>
             snd (FMP_aextract_data create_url fetch q creds) =
               Inr (concat (map recs (split_str CHR '','' s))))"
proof (intro conjI impI)
  show 1: "snd (FMP_aextract_data create_url fetch q creds) =
           get_data_urls fetch (map (url_of_symbol create_url q creds) (split_str CHR '','' s))"
    using assms by (rule FMP_aextract_data_snd)
  show "length (map (url_of_symbol create_url q creds) (split_str CHR '','' s)) =
             Suc (count_list s CHR '','')"
    by (simp add: length_split_str)
  assume a: "\<forall>sy\<in>set (split_str CHR '','' s).
                fetch (url_of_symbol create_url q creds sy) = Inr (recs sy)"
  have "collect fetch (map (url_of_symbol create_url q creds) (split_str CHR '','' s)) =
        Inr (map recs (split_str CHR '','' s))"
    using a by (rule collect_map)
  then show "snd (FMP_aextract_data create_url fetch q creds) =
               Inr (concat (map recs (split_str CHR '','' s)))"
    using 1 by (simp add: get_data_urls_def)
qed

theorem aextract_data_per_symbol_witness:
  "symbol \<lparr>symbol = Some ''AAPL,MSFT'', with_grade = False\<rparr> = Some ''AAPL,MSFT''
   \<and> split_str CHR '','' ''AAPL,MSFT'' = [''AAPL'', ''MSFT'']
   \<and> snd (FMP_aextract_data
        (\<lambda>version endpoint api_key q exclude.
           endpoint @ ''/'' @ (case symbol q of Some sy \<Rightarrow> sy | None \<Rightarrow> []))
        (\<lambda>url. Inr [PStr url]) \<lparr>symbol = Some ''AAPL,MSFT'', with_grade = False\<rparr> None) =
       Inr [PStr ''price-target/AAPL'', PStr ''price-target/MSFT'']"
  using aextract_data_per_symbol[where q = "\<lparr>symbol = Some ''AAPL,MSFT'', with_grade = False\<rparr>"
      and s = "''AAPL,MSFT''"
      and create_url = "\<lambda>version endpoint api_key q exclude.
           endpoint @ ''/'' @ (case symbol q of Some sy \<Rightarrow> sy | None \<Rightarrow> [])"
      and fetch = "\<lambda>url. Inr [PStr url]" and creds = None
      and recs = "\<lambda>sy. [PStr (''price-target/'' @ sy)]"]
  by (simp add: url_of_symbol_def endpoint_of_def get_data_urls_def)

section \<open>Construction of the Benzinga query\<close>

text \<open>
  Claim C8, as the code has it: when the mapping supplies for \<^verbatim>\<open>action\<close> a value
  that is neither None nor one of the eleven codes, no query object is produced:
  the construction raises, and what it raises is the validation error whenever no
  field raises another exception; when every field validates, the query object
  holding the validated values is returned.
\<close>

theorem transform_query_action:
  "(field_input params ''parameters[action]'' ''action'' = Some v \<and> v \<noteq> PNone \<and>
    (\<forall>c\<in>set action_literals. v \<noteq> PStr c) \<longrightarrow>
      (\<exists>e. transform_query typed dflt params = Inl e) \<and>
      ((\<forall>r\<in>set (field_results typed dflt params). \<forall>e. r = Inl e \<longrightarrow> e = ValidationError) \<longrightarrow>
         transform_query typed dflt params = Inl ValidationError))
   \<and> ((\<forall>r\<in>set (field_results typed dflt params). \<exists>x. r = Inr x) \<longrightarrow>
        (\<exists>q. transform_query typed dflt params = Inr q \<and>
           map Inr [bz_symbol q, bz_limit q, bz_page q, bz_date q, bz_start_date q,
                    bz_end_date q, bz_updated q, bz_importance q, bz_action q,
                    bz_analyst_ids q, bz_firm_ids q, bz_fields q] =
           field_results typed dflt params))"
proof (intro conjI impI)
  assume a: "field_input params ''parameters[action]'' ''action'' = Some v \<and> v \<noteq> PNone \<and>
    (\<forall>c\<in>set action_literals. v \<noteq> PStr c)"
  have m: "Inl ValidationError \<in> set (field_results typed dflt params)"
    using action_result_mem[of params typed dflt] a action_field_invalid[of v] by simp
  then have "raised (field_results typed dflt params) False \<noteq> None"
    by (auto simp: raised_None_iff)
  then show "\<exists>e. transform_query typed dflt params = Inl e"
    by (auto simp: transform_query_def Let_def)
  assume "\<forall>r\<in>set (field_results typed dflt params). \<forall>e. r = Inl e \<longrightarrow> e = ValidationError"
  then have "raised (field_results typed dflt params) False = Some ValidationError"
    using m by (simp add: raised_validation_only)
  then show "transform_query typed dflt params = Inl ValidationError"
    by (simp add: transform_query_def Let_def)
next
  assume "\<forall>r\<in>set (field_results typed dflt params). \<exists>x. r = Inr x"
  then show "\<exists>q. transform_query typed dflt params = Inr q \<and>
           map Inr [bz_symbol q, bz_limit q, bz_page q, bz_date q, bz_start_date q,
                    bz_end_date q, bz_updated q, bz_importance q, bz_action q,
                    bz_analyst_ids q, bz_firm_ids q, bz_fields q] =
           field_results typed dflt params"
    by (rule transform_query_ok)
qed

theorem transform_query_action_witness:
  "field_input [(''action'', PStr ''sells'')] ''parameters[action]'' ''action'' =
     Some (PStr ''sells'')
   \<and> transform_query (\<lambda>name. Inr) (\<lambda>name. PInt 200) [(''action'', PStr ''sells'')] =
       Inl ValidationError
   \<and> (\<exists>q. transform_query (\<lambda>name. Inr) (\<lambda>name. PInt 200) [(''action'', PStr ''upgrades'')] =
            Inr q \<and> bz_action q = PStr ''Upgrades'')"
proof -
  have i: "field_input [(''action'', PStr ''sells'')] ''parameters[action]'' ''action'' =
     Some (PStr ''sells'')"
    by (simp add: field_input_def)
  have n: "\<forall>c\<in>set action_literals. PStr ''sells'' \<noteq> PStr c"
    by (simp add: action_literals_def)
  have e: "\<forall>r\<in>set (field_results (\<lambda>name. Inr) (\<lambda>name. PInt 200) [(''action'', PStr ''sells'')]).
            \<forall>e. r = Inl e \<longrightarrow> e = ValidationError"
    by (simp add: field_results_def run_field_def field_input_def as_validation_def
          action_literals_def)
  have bad: "transform_query (\<lambda>name. Inr) (\<lambda>name. PInt 200) [(''action'', PStr ''sells'')] =
       Inl ValidationError"
    using transform_query_action[where params = "[(''action'', PStr ''sells'')]"
        and v = "PStr ''sells''" and typed = "\<lambda>name. Inr" and dflt = "\<lambda>name. PInt 200"] i n e
    by blast
  have r: "field_results (\<lambda>name. Inr) (\<lambda>name. PInt 200) [(''action'', PStr ''upgrades'')] =
      [Inr (PInt 200), Inr (PInt 200), Inr (PInt 0), Inr PNone, Inr PNone, Inr PNone,
       Inr PNone, Inr PNone, Inr (PStr ''Upgrades''), Inr PNone, Inr PNone, Inr PNone]"
    by (simp add: field_results_def run_field_def field_input_def as_validation_def
          action_literals_def COVERAGE_DICT_def)
  then have "\<forall>r\<in>set (field_results (\<lambda>name. Inr) (\<lambda>name. PInt 200)
                      [(''action'', PStr ''upgrades'')]). \<exists>x. r = Inr x"
    by simp
  with transform_query_action[where params = "[(''action'', PStr ''upgrades'')]"
        and typed = "\<lambda>name. Inr" and dflt = "\<lambda>name. PInt 200"]
  obtain q where q: "transform_query (\<lambda>name. Inr) (\<lambda>name. PInt 200)
        [(''action'', PStr ''upgrades'')] = Inr q"
      "map Inr [bz_symbol q, bz_limit q, bz_page q, bz_date q, bz_start_date q,
                bz_end_date q, bz_updated q, bz_importance q, bz_action q,
                bz_analyst_ids q, bz_firm_ids q, bz_fields q] =
       field_results (\<lambda>name. Inr) (\<lambda>name. PInt 200) [(''action'', PStr ''upgrades'')]"
    by blast
  from q(2) r have "bz_action q = PStr ''Upgrades''" by simp
  with q(1) i bad show ?thesis by blast
qed

text \<open>
  The claim as the spec states it fails where another field raises an exception
  that is no validation error: with an unsupported action and
  \<^verbatim>\<open>analyst_ids=5\<close>, the TypeError of the list validator leaves the
  construction.
\<close>

theorem transform_query_action_counterexample:
  "transform_query (\<lambda>name. Inr) (\<lambda>name. PInt 200)
     [(''action'', PStr ''sells''), (''analyst_ids'', PInt 5)] = Inl TypeError"
  by (simp add: transform_query_def field_results_def run_field_def field_input_def
        as_validation_def action_literals_def)

section \<open>The data-transform step\<close>

text \<open>
  Claim C9: when every raw record of the list validates, the data-transform step
  of either fetcher returns a list of the same length whose record at each
  position is the one the loop body derives from the raw record at that position.
\<close>

theorem transform_data_positions:
  "((\<forall>x\<in>set data. \<exists>r. Benzinga_transform_item strptime typed x = Inr r) \<longrightarrow>
      (\<exists>rs. Benzinga_transform_data strptime typed data = Inr rs \<and> length rs = length data \<and>
         (\<forall>i<length data. Benzinga_transform_item strptime typed (data ! i) = Inr (rs ! i))))
   \<and> ((\<forall>x\<in>set data'. \<exists>r. FMP_transform_item strptime' typed' x = Inr r) \<longrightarrow>
      (\<exists>rs. FMP_transform_data strptime' typed' data' = Inr rs \<and> length rs = length data' \<and>
         (\<forall>i<length data'. FMP_transform_item strptime' typed' (data' ! i) = Inr (rs ! i))))"
  unfolding Benzinga_transform_data_def FMP_transform_data_def
  using collect_all[of data "Benzinga_transform_item strptime typed"]
    collect_all[of data' "FMP_transform_item strptime' typed'"]
  by blast

theorem transform_data_positions_witness:
  "(\<exists>rs. Benzinga_transform_data (\<lambda>s. None) Inr
            [PDict [(''ticker'', PStr ''AAPL''), (''url_calendar'', PStr ''u'')],
             PDict [(''ticker'', PStr ''MSFT''), (''updated'', PInt 86400)]] = Inr rs
         \<and> length rs = 2
         \<and> rs ! 0 = [(''ticker'', PStr ''AAPL'')]
         \<and> rs ! 1 = [(''ticker'', PStr ''MSFT''), (''updated'', PDate 1)])
   \<and> (\<exists>rs. FMP_transform_data (\<lambda>s. None) Inr
            [PDict [(''symbol'', PStr ''AAPL''), (''analystCompany'', PStr ''X'')],
             PDict [(''symbol'', PStr ''MSFT'')]] = Inr rs
         \<and> length rs = 2
         \<and> rs ! 0 = [(''symbol'', PStr ''AAPL''), (''analyst_firm'', PStr ''X'')]
         \<and> rs ! 1 = [(''symbol'', PStr ''MSFT'')])"
proof -
  let ?b = "[PDict [(''ticker'', PStr ''AAPL''), (''url_calendar'', PStr ''u'')],
             PDict [(''ticker'', PStr ''MSFT''), (''updated'', PInt 86400)]]"
  let ?f = "[PDict [(''symbol'', PStr ''AAPL''), (''analystCompany'', PStr ''X'')],
             PDict [(''symbol'', PStr ''MSFT'')]]"
  have b0: "Benzinga_transform_item (\<lambda>s. None) Inr (?b ! 0) = Inr [(''ticker'', PStr ''AAPL'')]"
    by (simp add: Benzinga_model_validate_def Benzinga_validators_def
          replace_empty_strings_def field_key_def)
  have b1: "Benzinga_transform_item (\<lambda>s. None) Inr (?b ! 1) =
        Inr [(''ticker'', PStr ''MSFT''), (''updated'', PDate 1)]"
    by (simp add: Benzinga_model_validate_def Benzinga_validators_def
          replace_empty_strings_def field_key_def fromtimestamp_def as_validation_def)
  have f0: "FMP_transform_item (\<lambda>s. None) Inr (?f ! 0) =
        Inr [(''symbol'', PStr ''AAPL''), (''analyst_firm'', PStr ''X'')]"
    by (simp add: FMP_model_validate_def new_item_def)
  have f1: "FMP_transform_item (\<lambda>s. None) Inr (?f ! 1) = Inr [(''symbol'', PStr ''MSFT'')]"
    by (simp add: FMP_model_validate_def new_item_def)
  have hb: "\<forall>x\<in>set ?b. \<exists>r. Benzinga_transform_item (\<lambda>s. None) Inr x = Inr r"
    using b0 b1 by simp
  have hf: "\<forall>x\<in>set ?f. \<exists>r. FMP_transform_item (\<lambda>s. None) Inr x = Inr r"
    using f0 f1 by simp
  note t = transform_data_positions[where data = ?b and data' = ?f
      and strptime = "\<lambda>s. None" and strptime' = "\<lambda>s. None" and typed = Inr and typed' = Inr]
  from t hb obtain rs where rs: "Benzinga_transform_data (\<lambda>s. None) Inr ?b = Inr rs"
      "length rs = length ?b"
      "\<forall>i<length ?b. Benzinga_transform_item (\<lambda>s. None) Inr (?b ! i) = Inr (rs ! i)"
    by blast
  from t hf obtain rs' where rs': "FMP_transform_data (\<lambda>s. None) Inr ?f = Inr rs'"
      "length rs' = length ?f"
      "\<forall>i<length ?f. FMP_transform_item (\<lambda>s. None) Inr (?f ! i) = Inr (rs' ! i)"
    by blast
  have "rs ! 0 = [(''ticker'', PStr ''AAPL'')]"
    using rs(3)[rule_format, of 0] b0 by simp
  moreover have "rs ! 1 = [(''ticker'', PStr ''MSFT''), (''updated'', PDate 1)]"
    using rs(3)[rule_format, of 1] b1 by simp
  moreover have "rs' ! 0 = [(''symbol'', PStr ''AAPL''), (''analyst_firm'', PStr ''X'')]"
    using rs'(3)[rule_format, of 0] f0 by simp
  moreover have "rs' ! 1 = [(''symbol'', PStr ''MSFT'')]"
    using rs'(3)[rule_format, of 1] f1 by simp
  ultimately show ?thesis using rs(1,2) rs'(1,2) by simp
qed

end
